theory Spec2Isabelle
  imports Complex_Main "HOL-Library.Word"
begin

section \<open>Values of the host language\<close>

text \<open>
  The program \<^verbatim>\<open>annotate-me.ts\<close> asks for a number between 1 and 10, validates it in
  two stages and repeats until a valid number arrives. Its functions work on
  JavaScript strings and JavaScript numbers, so both are modelled first.

  A string is a sequence of 16-bit code units. Literals of this theory are written as
  Isabelle strings and converted with \<open>js\<close>.
\<close>

type_synonym code_unit = "16 word"
type_synonym jsstring = "code_unit list"

definition js :: "string \<Rightarrow> jsstring" where
  "js s = map (\<lambda>c. of_nat (of_char c)) s"

text \<open>
  A \<^verbatim>\<open>number\<close> is an IEEE 754 double: NaN, the two infinities, or a finite value.
  A finite value is carried by the rational it denotes (every double is a rational;
  the type admits more rationals than there are doubles, so what holds for every
  \<open>Fin q\<close> holds for every finite double). Negative zero is identified with zero:
  the operations this program applies to a number (\<^verbatim>\<open>isNaN\<close>, \<^verbatim>\<open>>\<close>, \<^verbatim>\<open><=\<close> and
  the conversion to a string inside a template literal) do not tell them apart.
\<close>

datatype number = NaN | PosInf | NegInf | Fin rat

definition isNaN :: "number \<Rightarrow> bool" where
  "isNaN x = (case x of NaN \<Rightarrow> True | _ \<Rightarrow> False)"

text \<open>The relational operators \<^verbatim>\<open>x > y\<close> and \<^verbatim>\<open>x <= y\<close>: false as soon as one side is NaN.\<close>

fun number_less :: "number \<Rightarrow> number \<Rightarrow> bool" where
  "number_less NaN _ = False"
| "number_less _ NaN = False"
| "number_less PosInf _ = False"
| "number_less _ PosInf = True"
| "number_less _ NegInf = False"
| "number_less NegInf _ = True"
| "number_less (Fin a) (Fin b) = (a < b)"

definition number_gt :: "number \<Rightarrow> number \<Rightarrow> bool" where
  "number_gt x y = number_less y x"

definition number_le :: "number \<Rightarrow> number \<Rightarrow> bool" where
  "number_le x y = (x \<noteq> NaN \<and> y \<noteq> NaN \<and> \<not> number_less y x)"

section \<open>The variant model\<close>

text \<open>
  \<^verbatim>\<open>
  type UnsanitizedNumber = { kind: 'unsanitized-number', value: number }
  type SanitizedNumber   = { kind: 'sanitized-number',   value: number }
  type InvalidNumber     = { kind: 'invalid-number' }
  type AppNumber = InvalidNumber | SanitizedNumber | UnsanitizedNumber
  \<close>
  The \<^verbatim>\<open>kind\<close> field of each shape has a one-element literal type, so a shape is
  determined by its \<^verbatim>\<open>value\<close>; \<open>kind\<close> reads the tag back from the union.
\<close>

datatype UnsanitizedNumber = UnsanitizedNumber (unsanitized_value: number)
datatype SanitizedNumber = SanitizedNumber (sanitized_value: number)

datatype AppNumber =
    Invalid
  | Sanitized SanitizedNumber
  | Unsanitized UnsanitizedNumber

fun kind :: "AppNumber \<Rightarrow> string" where
  "kind Invalid = ''invalid-number''"
| "kind (Sanitized _) = ''sanitized-number''"
| "kind (Unsanitized _) = ''unsanitized-number''"

section \<open>The parsing stage\<close>

text \<open>
  \<^verbatim>\<open>parseInt(input)\<close> is called with one argument. The built-in then works as
  follows: leading white space and line terminators are skipped; one sign character
  is read if present; with no radix given, a following \<^verbatim>\<open>0x\<close> or \<^verbatim>\<open>0X\<close> is removed
  and selects radix 16, otherwise the radix is 10; the longest run of digits of that
  radix is taken; an empty run gives NaN; otherwise the result is the double nearest
  to the signed value of the run.
\<close>

definition isStrWhiteSpaceChar :: "code_unit \<Rightarrow> bool" where
  "isStrWhiteSpaceChar c \<longleftrightarrow>
     c = 0x0009 \<or> c = 0x000A \<or> c = 0x000B \<or> c = 0x000C \<or> c = 0x000D \<or>
     c = 0x0020 \<or> c = 0x00A0 \<or> c = 0x1680 \<or> (0x2000 \<le> c \<and> c \<le> 0x200A) \<or>
     c = 0x2028 \<or> c = 0x2029 \<or> c = 0x202F \<or> c = 0x205F \<or> c = 0x3000 \<or> c = 0xFEFF"

text \<open>The value of a digit character: \<^verbatim>\<open>0\<close>-\<^verbatim>\<open>9\<close>, then letters of either case from 10 on.\<close>

definition digitValue :: "code_unit \<Rightarrow> nat option" where
  "digitValue c =
     (if 0x30 \<le> c \<and> c \<le> 0x39 then Some (unat c - 48)
      else if 0x61 \<le> c \<and> c \<le> 0x7A then Some (unat c - 87)
      else if 0x41 \<le> c \<and> c \<le> 0x5A then Some (unat c - 55)
      else None)"

definition isRadixDigit :: "nat \<Rightarrow> code_unit \<Rightarrow> bool" where
  "isRadixDigit R c = (case digitValue c of Some d \<Rightarrow> d < R | None \<Rightarrow> False)"

definition mathInt :: "nat \<Rightarrow> jsstring \<Rightarrow> nat" where
  "mathInt R Z = foldl (\<lambda>acc c. acc * R + (case digitValue c of Some d \<Rightarrow> d | None \<Rightarrow> 0)) 0 Z"

text \<open>
  The double nearest to an integer (round to nearest, ties to even). Below \<open>2 ^ 53\<close>
  every integer is a double. Above, a double has 53 significant bits; a result of
  \<open>2 ^ 1024\<close> or more is an infinity.
\<close>

fun bitLength :: "nat \<Rightarrow> nat" where
  "bitLength n = (if n = 0 then 0 else Suc (bitLength (n div 2)))"

declare bitLength.simps [simp del]

definition toDouble :: "int \<Rightarrow> number" where
  "toDouble n =
     (let a = nat \<bar>n\<bar> in
      if a < 2 ^ 53 then Fin (of_int n)
      else
        let e = bitLength a - 53;
            q = a div 2 ^ e;
            r = a mod 2 ^ e;
            h = 2 ^ (e - 1);
            q' = (if h < r \<or> (r = h \<and> odd q) then q + 1 else q);
            m = q' * 2 ^ e
        in if 2 ^ 1024 \<le> m then (if n < 0 then NegInf else PosInf)
           else Fin (of_int (sgn n * int m)))"

definition parseInt :: "jsstring \<Rightarrow> number" where
  "parseInt inputString =
     (let S0 = dropWhile isStrWhiteSpaceChar inputString;
          sign = (case S0 of c # _ \<Rightarrow> if c = 0x2D then - 1 else 1 | [] \<Rightarrow> (1::int));
          S1 = (case S0 of c # rest \<Rightarrow> if c = 0x2B \<or> c = 0x2D then rest else S0 | [] \<Rightarrow> S0);
          hex = (case S1 of a # b # _ \<Rightarrow> a = 0x30 \<and> (b = 0x78 \<or> b = 0x58) | _ \<Rightarrow> False);
          R = (if hex then 16 else 10);
          S2 = (if hex then drop 2 S1 else S1);
          Z = takeWhile (isRadixDigit R) S2
      in if Z = [] then NaN else toDouble (sign * int (mathInt R Z)))"

text \<open>
  \<^verbatim>\<open>
  const unsanitizedNumber = (input: string): UnsanitizedNumber | null => {
    const num = parseInt(input)
    if(isNaN(num)) { return null }
    else { return { kind: 'unsanitized-number', value: parseInt(input) } }
  }
  \<close>
\<close>

definition unsanitizedNumber :: "jsstring \<Rightarrow> UnsanitizedNumber option" where
  "unsanitizedNumber input =
     (let num = parseInt input in
      if isNaN num then None
      else Some (UnsanitizedNumber (parseInt input)))"

section \<open>The sanitization stage\<close>

text \<open>
  \<^verbatim>\<open>
  const sanitizedNumber = (input: UnsanitizedNumber | null): SanitizedNumber | null => {
    if(input == null) { return null }
    else {
      if(input.value > 0 && input.value <= 10) {
        return { kind: 'sanitized-number', value: input.value }
      } else { return null }
    }
  }
  \<close>
  \<^verbatim>\<open>null\<close> is \<open>None\<close>.
\<close>

fun sanitizedNumber :: "UnsanitizedNumber option \<Rightarrow> SanitizedNumber option" where
  "sanitizedNumber None = None"
| "sanitizedNumber (Some input) =
     (if number_gt (unsanitized_value input) (Fin 0) \<and> number_le (unsanitized_value input) (Fin 10)
      then Some (SanitizedNumber (unsanitized_value input))
      else None)"

definition is_integer :: "number \<Rightarrow> bool" where
  "is_integer x = (case x of Fin q \<Rightarrow> q = of_int \<lfloor>q\<rfloor> | _ \<Rightarrow> False)"

section \<open>Numbers as text\<close>

text \<open>
  A template literal converts each substituted value to a string. For NaN and the
  infinities the result is the name. For an integer of magnitude below \<open>2 ^ 53\<close> it
  is the decimal digits, with a minus sign for a negative value: the language prints
  the shortest digits that read back to the same double, and below \<open>2 ^ 53\<close> no
  shorter digit string than the integer's own reads back to it. The digits of other
  finite values (fractions, and integers from \<open>2 ^ 53\<close> on, where the shortest
  digits differ from the exact ones) are outside this development, and
  \<open>Number_toString\<close> is \<open>None\<close> there.
\<close>

definition digitChar :: "nat \<Rightarrow> code_unit" where
  "digitChar d = of_nat (48 + d)"

fun decimalDigits :: "nat \<Rightarrow> jsstring" where
  "decimalDigits n =
     (if n < 10 then [digitChar n]
      else decimalDigits (n div 10) @ [digitChar (n mod 10)])"

declare decimalDigits.simps [simp del]

definition intToString :: "int \<Rightarrow> jsstring" where
  "intToString n = (if n < 0 then 0x2D # decimalDigits (nat (- n)) else decimalDigits (nat n))"

definition Number_toString :: "number \<Rightarrow> jsstring option" where
  "Number_toString x =
     (case x of
        NaN \<Rightarrow> Some (js ''NaN'')
      | PosInf \<Rightarrow> Some (js ''Infinity'')
      | NegInf \<Rightarrow> Some (js ''-Infinity'')
      | Fin q \<Rightarrow> if q = of_int \<lfloor>q\<rfloor> \<and> \<bar>q\<bar> < 2 ^ 53 then Some (intToString \<lfloor>q\<rfloor>) else None)"

text \<open>
  A template literal is kept as its parts: literal text, substituted strings and
  numbers, and \<^verbatim>\<open>undefined\<close> for a property that the object does not have.
\<close>

datatype piece = Str jsstring | Num number | Undefined

type_synonym template = "piece list"

fun render_piece :: "piece \<Rightarrow> jsstring option" where
  "render_piece (Str t) = Some t"
| "render_piece (Num x) = Number_toString x"
| "render_piece Undefined = Some (js ''undefined'')"

fun render :: "template \<Rightarrow> jsstring option" where
  "render [] = Some []"
| "render (p # ps) =
     (case render_piece p of
        None \<Rightarrow> None
      | Some t \<Rightarrow> (case render ps of None \<Rightarrow> None | Some ts \<Rightarrow> Some (t @ ts)))"

section \<open>The interaction loop\<close>

text \<open>
  The effects of the program are calls of \<^verbatim>\<open>fs.readFile('/dev/stdin', 'utf8')\<close>,
  \<^verbatim>\<open>console.log\<close> and \<^verbatim>\<open>console.error\<close>. A run is described by the list of these
  calls in order, a call of \<^verbatim>\<open>readFile\<close> being listed when it settles. The input
  channel is the list of what the successive calls of
  \<^verbatim>\<open>readFile\<close> deliver: a text (\<open>Inr\<close>), or a failure that rejects the awaited
  promise (\<open>Inl\<close>). \<^verbatim>\<open>readFile\<close> reads a file to its end, so the text of one call
  is everything the channel holds up to there, whether that is one line, several
  lines or nothing.
\<close>

datatype io_error = IOError string

type_synonym read_result = "io_error + jsstring"

datatype event =
    ReadFile read_result
  | ConsoleLog template
  | ConsoleError template

text \<open>
  \<^verbatim>\<open>
  function showError(x: any): void {
    console.error(`${x} is not what I asked for.`)
  }
  \<close>
\<close>

definition showError :: "piece \<Rightarrow> event list" where
  "showError x = [ConsoleError [x, Str (js '' is not what I asked for.'')]]"

text \<open>
  The property \<^verbatim>\<open>value\<close> of an \<^verbatim>\<open>AppNumber\<close>, as \<^verbatim>\<open>finalNumber.value\<close> reads it.
\<close>

fun value_of :: "AppNumber \<Rightarrow> piece" where
  "value_of Invalid = Undefined"
| "value_of (Sanitized n) = Num (sanitized_value n)"
| "value_of (Unsanitized n) = Num (unsanitized_value n)"

text \<open>
  The body of the program is an \<^verbatim>\<open>async\<close> function called at once. Its promise is
  fulfilled when the function returns, rejected when an awaited \<^verbatim>\<open>readFile\<close> fails
  (nothing in the function catches the failure), and pending while the function is
  suspended at \<^verbatim>\<open>await\<close> and the channel has delivered nothing more.
\<close>

datatype promise = Pending | Fulfilled | Rejected io_error

record run =
  finalNumber :: AppNumber
  events :: "event list"
  promise :: promise

text \<open>
  \<^verbatim>\<open>
  do {
    const input: string = await fs.readFile('/dev/stdin', 'utf8')
    const numStep1 = unsanitizedNumber(input)
    const numStep2 = sanitizedNumber(numStep1)
    if(numStep2 != null) { finalNumber = numStep2 } else { showError(input) }
  } while(finalNumber.kind != 'sanitized-number')
  console.log(`You did what I wanted and gave me ${finalNumber.value}!`)
  \<close>
  The function \<open>do_while\<close> takes the current \<^verbatim>\<open>finalNumber\<close>, the events so far and
  what the channel still delivers.
\<close>

fun do_while :: "AppNumber \<Rightarrow> event list \<Rightarrow> read_result list \<Rightarrow> run" where
  "do_while fin evs [] = \<lparr>finalNumber = fin, events = evs, promise = Pending\<rparr>"
| "do_while fin evs (Inl err # rest) =
     \<lparr>finalNumber = fin, events = evs @ [ReadFile (Inl err)], promise = Rejected err\<rparr>"
| "do_while fin evs (Inr input # rest) =
     (let numStep1 = unsanitizedNumber input;
          numStep2 = sanitizedNumber numStep1;
          fin' = (case numStep2 of Some n \<Rightarrow> Sanitized n | None \<Rightarrow> fin);
          evs' = evs @ [ReadFile (Inr input)] @
                 (case numStep2 of Some n \<Rightarrow> [] | None \<Rightarrow> showError (Str input))
      in if kind fin' \<noteq> ''sanitized-number'' then do_while fin' evs' rest
         else \<lparr>finalNumber = fin',
               events = evs' @ [ConsoleLog [Str (js ''You did what I wanted and gave me ''),
                                            value_of fin', Str (js ''!'')]],
               promise = Fulfilled\<rparr>)"

definition asyncFunction :: "read_result list \<Rightarrow> run" where
  "asyncFunction channel =
     do_while Invalid [ConsoleLog [Str (js ''Give me a number between 1 and 10:'')]] channel"

text \<open>
  \<open>asyncFunction\<close> is the \<^verbatim>\<open>async\<close> function on its own: what it does with the
  reads that settle, as long as nothing else ends the process.
\<close>

section \<open>The module\<close>

text \<open>
  The module calls the \<^verbatim>\<open>async\<close> function at once. The function runs to its first
  \<^verbatim>\<open>await\<close>: it has logged the prompt and called \<^verbatim>\<open>readFile\<close>, whose promise cannot
  settle before the statements of the module have all run. The module then goes on
  with the statements that follow the call. The source says of them that they are a
  section that "does not get executed"; they are ordinary statements:
  \<^verbatim>\<open>
  const invalidTestData: InvalidNumber = { kind: 'invalid-number' }
  const unsanitizedTestData: UnsanitizedNumber = { kind: 'unsanitized-number', value: 0 }
  const sanitizedTestData: SanitizedNumber = { kind: 'sanitized-number', value: 0 }
  declare function testUnsanitized(x: UnsanitizedNumber): void
  declare function testSanitized(x: SanitizedNumber): void
  declare function testInvalid(x: InvalidNumber): void
  testUnsanitized(unsanitizedTestData)
  testUnsanitized(sanitizedTestData)
  testUnsanitized(invalidTestData)
  testUnsanitized(sanitizedTestData)
  testSanitized(sanitizedTestData)
  testSanitized(invalidTestData)
  testSanitized(unsanitizedTestData)
  testInvalid(invalidTestData)
  testInvalid(sanitizedTestData)
  testInvalid(unsanitizedTestData)
  declare function getNumber(): AppNumber
  const number: AppNumber = getNumber()
  number.value
  const getValue = (num: AppNumber): number => { ... }
  getValue(number)
  \<close>
  A \<^verbatim>\<open>const\<close> evaluates its initialiser and binds a name. \<^verbatim>\<open>declare function\<close> is a
  typing only and binds nothing when the program runs. An expression statement
  evaluates the identifiers it mentions, the called function first. Evaluating an
  identifier that is not bound throws a \<^verbatim>\<open>ReferenceError\<close>, which nothing catches.
\<close>

datatype js_error = ReferenceError string

datatype statement =
    Const string "string list"
  | Declare string
  | Expr "string list"

fun exec :: "string list \<Rightarrow> statement list \<Rightarrow> js_error option" where
  "exec env [] = None"
| "exec env (Declare f # rest) = exec env rest"
| "exec env (Const x ids # rest) =
     (case find (\<lambda>i. i \<notin> set env) ids of
        Some i \<Rightarrow> Some (ReferenceError i)
      | None \<Rightarrow> exec (x # env) rest)"
| "exec env (Expr ids # rest) =
     (case find (\<lambda>i. i \<notin> set env) ids of
        Some i \<Rightarrow> Some (ReferenceError i)
      | None \<Rightarrow> exec env rest)"

text \<open>The names bound when the \<^verbatim>\<open>async\<close> function has been called.\<close>

definition module_env :: "string list" where
  "module_env = [''fs'', ''unsanitizedNumber'', ''sanitizedNumber'', ''showError'']"

definition module_body :: "statement list" where
  "module_body =
     [Const ''invalidTestData'' [],
      Const ''unsanitizedTestData'' [],
      Const ''sanitizedTestData'' [],
      Declare ''testUnsanitized'',
      Declare ''testSanitized'',
      Declare ''testInvalid'',
      Expr [''testUnsanitized'', ''unsanitizedTestData''],
      Expr [''testUnsanitized'', ''sanitizedTestData''],
      Expr [''testUnsanitized'', ''invalidTestData''],
      Expr [''testUnsanitized'', ''sanitizedTestData''],
      Expr [''testSanitized'', ''sanitizedTestData''],
      Expr [''testSanitized'', ''invalidTestData''],
      Expr [''testSanitized'', ''unsanitizedTestData''],
      Expr [''testInvalid'', ''invalidTestData''],
      Expr [''testInvalid'', ''sanitizedTestData''],
      Expr [''testInvalid'', ''unsanitizedTestData''],
      Declare ''getNumber'',
      Const ''number'' [''getNumber''],
      Expr [''number''],
      Const ''getValue'' [],
      Expr [''getValue'', ''number'']]"

text \<open>
  The program as the module is written. If a statement of the module throws, the
  process ends there on the uncaught error, with the \<^verbatim>\<open>async\<close> function still
  suspended at its first \<^verbatim>\<open>await\<close>: it has logged the prompt and no read has
  settled, which is \<open>asyncFunction []\<close>. Otherwise the reads settle one after the
  other and the function goes on with them.
\<close>

record process =
  asyncRun :: run
  uncaught :: "js_error option"

definition program :: "read_result list \<Rightarrow> process" where
  "program channel =
     (case exec module_env module_body of
        Some e \<Rightarrow> \<lparr>asyncRun = asyncFunction [], uncaught = Some e\<rparr>
      | None \<Rightarrow> \<lparr>asyncRun = asyncFunction channel, uncaught = None\<rparr>)"

section \<open>The leading integer of a text\<close>

text \<open>
  The specification describes the parsing stage as reading the leading portion of the
  text as a base-10 integer literal. The definitions of this section follow those
  words and are independent of \<open>parseInt\<close>: after white space and one optional
  sign, the leading decimal digits, valued by position. The same is written down for
  hexadecimal digits after a \<^verbatim>\<open>0x\<close> prefix.
\<close>

definition isDecimalDigit :: "code_unit \<Rightarrow> bool" where
  "isDecimalDigit c \<longleftrightarrow> 0x30 \<le> c \<and> c \<le> 0x39"

definition isHexDigit :: "code_unit \<Rightarrow> bool" where
  "isHexDigit c \<longleftrightarrow> isDecimalDigit c \<or> (0x61 \<le> c \<and> c \<le> 0x66) \<or> (0x41 \<le> c \<and> c \<le> 0x46)"

definition decimalDigitValue :: "code_unit \<Rightarrow> nat" where
  "decimalDigitValue c = unat c - 48"

definition hexDigitValue :: "code_unit \<Rightarrow> nat" where
  "hexDigitValue c =
     (if isDecimalDigit c then unat c - 48
      else if 0x61 \<le> c then unat c - 0x61 + 10
      else unat c - 0x41 + 10)"

fun positional :: "nat \<Rightarrow> nat list \<Rightarrow> nat" where
  "positional b [] = 0"
| "positional b (d # ds) = d * b ^ length ds + positional b ds"

definition leadingContent :: "jsstring \<Rightarrow> bool \<times> jsstring" where
  "leadingContent s =
     (case dropWhile isStrWhiteSpaceChar s of
        [] \<Rightarrow> (False, [])
      | c # r \<Rightarrow> if c = 0x2D then (True, r) else if c = 0x2B then (False, r) else (False, c # r))"

definition withSign :: "bool \<Rightarrow> nat \<Rightarrow> int" where
  "withSign neg n = (if neg then - int n else int n)"

definition spec_leadingDecimal :: "jsstring \<Rightarrow> int option" where
  "spec_leadingDecimal s =
     (let ds = takeWhile isDecimalDigit (snd (leadingContent s))
      in if ds = [] then None
         else Some (withSign (fst (leadingContent s)) (positional 10 (map decimalDigitValue ds))))"

definition hexPrefixed :: "jsstring \<Rightarrow> bool" where
  "hexPrefixed s =
     (case snd (leadingContent s) of
        a # b # _ \<Rightarrow> a = 0x30 \<and> (b = 0x78 \<or> b = 0x58)
      | _ \<Rightarrow> False)"

definition leadingHex :: "jsstring \<Rightarrow> int option" where
  "leadingHex s =
     (let ds = takeWhile isHexDigit (drop 2 (snd (leadingContent s)))
      in if ds = [] then None
         else Some (withSign (fst (leadingContent s)) (positional 16 (map hexDigitValue ds))))"

section \<open>Observations on a run\<close>



fun stderr_lines :: "event list \<Rightarrow> template list" where
  "stderr_lines [] = []"
| "stderr_lines (ConsoleError t # evs) = t # stderr_lines evs"
| "stderr_lines (ReadFile r # evs) = stderr_lines evs"
| "stderr_lines (ConsoleLog t # evs) = stderr_lines evs"


fun reads :: "event list \<Rightarrow> read_result list" where
  "reads [] = []"
| "reads (ReadFile r # evs) = r # reads evs"
| "reads (ConsoleError t # evs) = reads evs"
| "reads (ConsoleLog t # evs) = reads evs"

section \<open>Comparisons of numbers\<close>

lemma number_gt_simps:
  "number_gt (Fin a) (Fin b) = (b < a)"
  "number_gt NaN y = False"
  "number_gt PosInf (Fin b) = True"
  "number_gt NegInf (Fin b) = False"
  by (cases y; simp add: number_gt_def)+

lemma number_le_simps:
  "number_le (Fin a) (Fin b) = (a \<le> b)"
  "number_le NaN y = False"
  "number_le PosInf (Fin b) = False"
  "number_le NegInf (Fin b) = True"
  by (auto simp: number_le_def)

section \<open>Properties of the parsing stage\<close>

subsection \<open>Decimal digits read back\<close>

lemma unat_digitChar: "d < 10 \<Longrightarrow> unat (digitChar d) = 48 + d"
proof -
  assume "d < 10"
  have "unat (of_nat (48 + d) :: 16 word) = (48 + d) mod 2 ^ LENGTH(16)"
    by (rule unat_of_nat)
  with \<open>d < 10\<close> show ?thesis
    unfolding digitChar_def by simp
qed

lemma digitChar_range: "d < 10 \<Longrightarrow> 0x30 \<le> digitChar d \<and> digitChar d \<le> 0x39"
  by (simp add: word_le_nat_alt unat_digitChar)

lemma digitValue_digitChar: "d < 10 \<Longrightarrow> digitValue (digitChar d) = Some d"
  using digitChar_range [of d] by (simp add: digitValue_def unat_digitChar)

lemma isRadixDigit_digitChar: "d < 10 \<Longrightarrow> isRadixDigit 10 (digitChar d)"
  by (simp add: isRadixDigit_def digitValue_digitChar)

lemma not_space_digitChar: "d < 10 \<Longrightarrow> \<not> isStrWhiteSpaceChar (digitChar d)"
  using unat_digitChar [of d]
  by (auto simp: isStrWhiteSpaceChar_def word_le_nat_alt)

lemma digitChar_neq: "d < 10 \<Longrightarrow> digitChar d \<noteq> 0x2D \<and> digitChar d \<noteq> 0x2B \<and> digitChar d \<noteq> 0x78 \<and> digitChar d \<noteq> 0x58"
  using unat_digitChar [of d] by auto

lemma decimalDigits_all: "c \<in> set (decimalDigits n) \<Longrightarrow> \<exists>d<10. c = digitChar d"
proof (induction n rule: decimalDigits.induct)
  case (1 n)
  show ?case
  proof (cases "n < 10")
    case True
    with "1.prems" show ?thesis by (auto simp: decimalDigits.simps [of n])
  next
    case False
    with "1.prems" have "c \<in> set (decimalDigits (n div 10)) \<or> c = digitChar (n mod 10)"
      by (auto simp: decimalDigits.simps [of n])
    with "1.IH" False show ?thesis
      by (metis mod_less_divisor zero_less_numeral)
  qed
qed

lemma mathInt_snoc:
  "mathInt R (Z @ [c]) = mathInt R Z * R + (case digitValue c of Some d \<Rightarrow> d | None \<Rightarrow> 0)"
  by (simp add: mathInt_def)

lemma mathInt_decimalDigits: "mathInt 10 (decimalDigits n) = n"
proof (induction n rule: decimalDigits.induct)
  case (1 n)
  show ?case
  proof (cases "n < 10")
    case True
    then show ?thesis by (simp add: decimalDigits.simps [of n] mathInt_def digitValue_digitChar)
  next
    case False
    then have "mathInt 10 (decimalDigits n) = mathInt 10 (decimalDigits (n div 10)) * 10 + n mod 10"
      by (simp add: decimalDigits.simps [of n] mathInt_snoc digitValue_digitChar)
    with "1.IH" False show ?thesis by simp
  qed
qed

lemma decimalDigits_nonempty: "decimalDigits n \<noteq> []"
  by (simp add: decimalDigits.simps [of n])

lemma digitChar_facts:
  assumes "d < 10"
  shows "\<not> isStrWhiteSpaceChar (digitChar d)" "digitChar d \<noteq> 0x2D" "digitChar d \<noteq> 0x2B"
    "digitChar d \<noteq> 0x78" "digitChar d \<noteq> 0x58" "isRadixDigit 10 (digitChar d)"
  using assms not_space_digitChar digitChar_neq isRadixDigit_digitChar by blast+

lemma parseInt_digits:
  assumes ne: "s \<noteq> []" and all: "\<forall>c\<in>set s. \<exists>d<10. c = digitChar d"
  shows "parseInt s = toDouble (int (mathInt 10 s))"
    and "parseInt (0x2D # s) = toDouble (- int (mathInt 10 s))"
proof -
  from ne obtain a r where s: "s = a # r" by (cases s) auto
  from all s obtain d where d: "d < 10" "a = digitChar d" by auto
  have tw: "takeWhile (isRadixDigit 10) s = s"
    using all by (auto simp: takeWhile_eq_all_conv isRadixDigit_digitChar)
  have nohex: "(case s of a # b # _ \<Rightarrow> a = 0x30 \<and> (b = 0x78 \<or> b = 0x58) | _ \<Rightarrow> False) = False"
  proof (cases r)
    case Nil
    with s show ?thesis by simp
  next
    case (Cons b r')
    with all s obtain e where "e < 10" "b = digitChar e" by auto
    with s Cons show ?thesis by (simp add: digitChar_facts)
  qed
  have dw: "dropWhile isStrWhiteSpaceChar s = s"
    by (simp add: s d digitChar_facts)
  have sg: "(case s of c # _ \<Rightarrow> if c = 0x2D then - 1 else 1 | [] \<Rightarrow> (1::int)) = 1"
    by (simp add: s d digitChar_facts)
  have st: "(case s of c # rest \<Rightarrow> if c = 0x2B \<or> c = 0x2D then rest else s | [] \<Rightarrow> s) = s"
    by (simp add: s d digitChar_facts)
  show "parseInt s = toDouble (int (mathInt 10 s))"
    by (simp add: parseInt_def Let_def dw sg st nohex tw ne)
  have "dropWhile isStrWhiteSpaceChar (0x2D # s) = 0x2D # s"
    by (simp add: isStrWhiteSpaceChar_def)
  then show "parseInt (0x2D # s) = toDouble (- int (mathInt 10 s))"
    by (simp add: parseInt_def Let_def nohex tw ne)
qed

lemma parseInt_intToString: "parseInt (intToString n) = toDouble n"
proof (cases "n < 0")
  case True
  then show ?thesis
    using parseInt_digits(2) [of "decimalDigits (nat (- n))"] decimalDigits_all decimalDigits_nonempty
    by (simp add: intToString_def mathInt_decimalDigits)
next
  case False
  then show ?thesis
    using parseInt_digits(1) [of "decimalDigits (nat n)"] decimalDigits_all decimalDigits_nonempty
    by (simp add: intToString_def mathInt_decimalDigits)
qed

lemma toDouble_small: "\<bar>n\<bar> < 2 ^ 53 \<Longrightarrow> toDouble n = Fin (of_int n)"
proof -
  assume "\<bar>n\<bar> < 2 ^ 53"
  then have "nat \<bar>n\<bar> < 2 ^ 53" by simp
  then show ?thesis
    unfolding toDouble_def Let_def by (simp only: if_True)
qed

lemma toDouble_cases: "toDouble n = PosInf \<or> toDouble n = NegInf \<or> (\<exists>k. toDouble n = Fin (of_int k))"
  unfolding toDouble_def Let_def by (simp del: of_int_mult of_int_power)

lemma parseInt_cases:
  "parseInt s = NaN \<or> parseInt s = PosInf \<or> parseInt s = NegInf \<or> (\<exists>k. parseInt s = Fin (of_int k))"
  unfolding parseInt_def Let_def using toDouble_cases by simp


lemmas parse_eval = unsanitizedNumber_def parseInt_def js_def isStrWhiteSpaceChar_def
  isRadixDigit_def digitValue_def mathInt_def toDouble_def isNaN_def number_gt_def number_le_def

lemmas render_eval = Number_toString_def intToString_def decimalDigits.simps digitChar_def js_def

lemma Number_toString_int:
  "\<bar>n\<bar> < 2 ^ 53 \<Longrightarrow> Number_toString (Fin (of_int n)) = Some (intToString n)"
proof -
  assume "\<bar>n\<bar> < 2 ^ 53"
  then have "\<bar>of_int n :: rat\<bar> < 2 ^ 53"
    by (metis of_int_abs of_int_less_iff of_int_numeral of_int_power)
  then show ?thesis by (simp add: Number_toString_def)
qed

lemma unsanitizedNumber_intToString:
  "\<bar>n\<bar> < 2 ^ 53 \<Longrightarrow> unsanitizedNumber (intToString n) = Some (UnsanitizedNumber (Fin (of_int n)))"
  by (simp add: unsanitizedNumber_def parseInt_intToString toDouble_small isNaN_def)

lemma pipeline_result:
  assumes "sanitizedNumber (unsanitizedNumber t) = Some s"
  shows "\<exists>n. 1 \<le> n \<and> n \<le> 10 \<and> s = SanitizedNumber (Fin (of_int n)) \<and> parseInt t = Fin (of_int n)"
proof -
  from parseInt_cases [of t] consider "parseInt t = NaN" | "parseInt t = PosInf"
    | "parseInt t = NegInf" | k where "parseInt t = Fin (of_int k)" by blast
  then show ?thesis
  proof cases
    case 4
    have "(0 < (of_int k :: rat)) = (1 \<le> k)"
      by (simp add: int_one_le_iff_zero_less)
    moreover have "((of_int k :: rat) \<le> 10) = (k \<le> 10)"
      using of_int_le_iff [of k 10, where ?'a = rat] by simp
    ultimately show ?thesis
      using assms 4
      by (auto simp: unsanitizedNumber_def isNaN_def number_gt_simps number_le_simps split: if_splits)
  qed (use assms in \<open>simp_all add: unsanitizedNumber_def isNaN_def number_gt_simps number_le_simps\<close>)
qed

subsection \<open>The built-in and the leading integer\<close>

lemma foldl_positional:
  "foldl (\<lambda>acc c. acc * R + g c) a Z = a * R ^ length Z + positional R (map g Z)"
  by (induction Z arbitrary: a) (simp_all add: algebra_simps)

lemma mathInt_positional:
  "mathInt R Z = positional R (map (\<lambda>c. case digitValue c of Some d \<Rightarrow> d | None \<Rightarrow> 0) Z)"
  unfolding mathInt_def by (simp add: foldl_positional)

lemma isRadixDigit_10: "isRadixDigit 10 c = isDecimalDigit c"
  by (auto simp: isRadixDigit_def digitValue_def isDecimalDigit_def word_le_nat_alt)

lemma isRadixDigit_16: "isRadixDigit 16 c = isHexDigit c"
  by (auto simp: isRadixDigit_def digitValue_def isHexDigit_def isDecimalDigit_def word_le_nat_alt)

lemma digitValue_decimal:
  "isDecimalDigit c \<Longrightarrow> (case digitValue c of Some d \<Rightarrow> d | None \<Rightarrow> 0) = decimalDigitValue c"
  by (simp add: digitValue_def isDecimalDigit_def decimalDigitValue_def)

lemma digitValue_hex:
  "isHexDigit c \<Longrightarrow> (case digitValue c of Some d \<Rightarrow> d | None \<Rightarrow> 0) = hexDigitValue c"
  by (auto simp: digitValue_def isHexDigit_def isDecimalDigit_def hexDigitValue_def word_le_nat_alt)

lemma mathInt_decimal:
  "mathInt 10 (takeWhile isDecimalDigit t) = positional 10 (map decimalDigitValue (takeWhile isDecimalDigit t))"
proof -
  have "map (\<lambda>c. case digitValue c of Some d \<Rightarrow> d | None \<Rightarrow> 0) (takeWhile isDecimalDigit t) =
        map decimalDigitValue (takeWhile isDecimalDigit t)"
    by (rule map_cong [OF refl]) (auto dest: set_takeWhileD simp: digitValue_decimal)
  then show ?thesis by (simp only: mathInt_positional)
qed

lemma mathInt_hex:
  "mathInt 16 (takeWhile isHexDigit t) = positional 16 (map hexDigitValue (takeWhile isHexDigit t))"
proof -
  have "map (\<lambda>c. case digitValue c of Some d \<Rightarrow> d | None \<Rightarrow> 0) (takeWhile isHexDigit t) =
        map hexDigitValue (takeWhile isHexDigit t)"
    by (rule map_cong [OF refl]) (auto dest: set_takeWhileD simp: digitValue_hex)
  then show ?thesis by (simp only: mathInt_positional)
qed

lemma parseInt_leadingContent:
  "parseInt s =
     (if hexPrefixed s
      then (let Z = takeWhile isHexDigit (drop 2 (snd (leadingContent s)))
            in if Z = [] then NaN else toDouble (withSign (fst (leadingContent s)) (mathInt 16 Z)))
      else (let Z = takeWhile isDecimalDigit (snd (leadingContent s))
            in if Z = [] then NaN else toDouble (withSign (fst (leadingContent s)) (mathInt 10 Z))))"
proof -
  define S0 where "S0 = dropWhile isStrWhiteSpaceChar s"
  have eta: "isRadixDigit 10 = isDecimalDigit" "isRadixDigit 16 = isHexDigit"
    by (auto simp: isRadixDigit_10 isRadixDigit_16)
  have lc: "leadingContent s =
      (case S0 of [] \<Rightarrow> (False, [])
       | c # r \<Rightarrow> if c = 0x2D then (True, r) else if c = 0x2B then (False, r) else (False, c # r))"
    by (simp only: leadingContent_def S0_def)
  have pi: "parseInt s =
     (let sign = (case S0 of c # _ \<Rightarrow> if c = 0x2D then - 1 else 1 | [] \<Rightarrow> (1::int));
          S1 = (case S0 of c # rest \<Rightarrow> if c = 0x2B \<or> c = 0x2D then rest else S0 | [] \<Rightarrow> S0);
          hex = (case S1 of a # b # _ \<Rightarrow> a = 0x30 \<and> (b = 0x78 \<or> b = 0x58) | _ \<Rightarrow> False);
          R = (if hex then 16 else 10);
          S2 = (if hex then drop 2 S1 else S1);
          Z = takeWhile (isRadixDigit R) S2
      in if Z = [] then NaN else toDouble (sign * int (mathInt R Z)))"
    by (simp only: parseInt_def S0_def Let_def)
  show ?thesis
  proof (cases S0)
    case Nil
    then show ?thesis
      by (simp add: lc pi hexPrefixed_def)
  next
    case (Cons c r)
    then show ?thesis
      by (simp add: lc pi hexPrefixed_def withSign_def Let_def eta)
  qed
qed

lemmas spec_eval = spec_leadingDecimal_def leadingHex_def hexPrefixed_def leadingContent_def
  isDecimalDigit_def isHexDigit_def decimalDigitValue_def hexDigitValue_def withSign_def
  js_def isStrWhiteSpaceChar_def Let_def

lemma isNaN_toDouble: "\<not> isNaN (toDouble n)"
  using toDouble_cases [of n] by (auto simp: isNaN_def)

lemma isNaN_NaN: "isNaN NaN"
  by (simp add: isNaN_def)

lemma unsanitizedNumber_decimal:
  "\<not> hexPrefixed s \<Longrightarrow>
     unsanitizedNumber s = map_option (\<lambda>n. UnsanitizedNumber (toDouble n)) (spec_leadingDecimal s)"
  by (simp add: unsanitizedNumber_def parseInt_leadingContent spec_leadingDecimal_def Let_def
      mathInt_decimal isNaN_toDouble isNaN_NaN)

lemma unsanitizedNumber_hex:
  "hexPrefixed s \<Longrightarrow>
     unsanitizedNumber s = map_option (\<lambda>n. UnsanitizedNumber (toDouble n)) (leadingHex s)"
  by (simp add: unsanitizedNumber_def parseInt_leadingContent leadingHex_def Let_def
      mathInt_hex isNaN_toDouble isNaN_NaN)

lemma hexPrefixed_leadingDecimal: "hexPrefixed s \<Longrightarrow> spec_leadingDecimal s \<noteq> None"
  by (auto simp: hexPrefixed_def spec_leadingDecimal_def Let_def isDecimalDigit_def
      split: list.splits)

text \<open>
  Claim C2, as stated: the parsing stage returns the absent signal when the text has
  no leading base-10 integer, and otherwise wraps the base-10 value of that leading
  integer. The text \<^verbatim>\<open>0x1A\<close> has the leading base-10 integer 0, and the stage wraps
  26: \<^verbatim>\<open>parseInt\<close> is called without a radix and reads a \<^verbatim>\<open>0x\<close> prefix as
  hexadecimal. The text \<^verbatim>\<open>9007199254740993\<close> is wrapped as 9007199254740992, the
  nearest double.
\<close>

theorem unsanitizedNumber_base10_counterexample:
  "spec_leadingDecimal (js ''0x1A'') = Some 0 \<and>
   unsanitizedNumber (js ''0x1A'') = Some (UnsanitizedNumber (Fin 26)) \<and>
   spec_leadingDecimal (js ''9007199254740993'') = Some 9007199254740993 \<and>
   unsanitizedNumber (js ''9007199254740993'') = Some (UnsanitizedNumber (Fin 9007199254740992))"
proof -
  have "bitLength 9007199254740993 = 54"
    by (simp add: bitLength.simps)
  then have "unsanitizedNumber (js ''9007199254740993'') = Some (UnsanitizedNumber (Fin 9007199254740992))"
    by (simp add: parse_eval Let_def)
  moreover have "unsanitizedNumber (js ''0x1A'') = Some (UnsanitizedNumber (Fin 26))"
    by (simp add: parse_eval)
  moreover have "spec_leadingDecimal (js ''0x1A'') = Some 0"
    by (simp add: spec_eval)
  moreover have "spec_leadingDecimal (js ''9007199254740993'') = Some 9007199254740993"
    by (simp add: spec_eval)
  ultimately show ?thesis by simp
qed

text \<open>
  Claim C2, amended. The parsing stage skips white space and one sign. A text with
  no leading base-10 integer gives the absent signal. If what follows the sign does
  not begin with \<^verbatim>\<open>0x\<close> or \<^verbatim>\<open>0X\<close>, the stage wraps the double nearest to the
  base-10 value of the leading decimal digits. If it does, the stage reads the
  hexadecimal digits after the prefix: the absent signal when there are none,
  otherwise the double nearest to their base-16 value. The nearest double of an
  integer of magnitude below \<open>2 ^ 53\<close> is that integer.
\<close>

theorem unsanitizedNumber_leading_integer:
  "(spec_leadingDecimal s = None \<longrightarrow> unsanitizedNumber s = None) \<and>
   (\<not> hexPrefixed s \<longrightarrow>
      unsanitizedNumber s =
        map_option (\<lambda>n. UnsanitizedNumber (toDouble n)) (spec_leadingDecimal s)) \<and>
   (hexPrefixed s \<longrightarrow>
      unsanitizedNumber s = map_option (\<lambda>n. UnsanitizedNumber (toDouble n)) (leadingHex s)) \<and>
   (\<bar>n\<bar> < 2 ^ 53 \<longrightarrow> toDouble n = Fin (of_int n))"
proof -
  have "spec_leadingDecimal s = None \<longrightarrow> unsanitizedNumber s = None"
  proof (cases "hexPrefixed s")
    case True
    then show ?thesis by (simp add: hexPrefixed_leadingDecimal)
  next
    case False
    then show ?thesis by (simp add: unsanitizedNumber_decimal)
  qed
  then show ?thesis
    using unsanitizedNumber_decimal unsanitizedNumber_hex toDouble_small by blast
qed

theorem unsanitizedNumber_leading_integer_witness:
  "spec_leadingDecimal (js ''abc'') = None \<and> unsanitizedNumber (js ''abc'') = None \<and>
   \<not> hexPrefixed (js '' -12abc'') \<and>
   unsanitizedNumber (js '' -12abc'') = Some (UnsanitizedNumber (Fin (- 12))) \<and>
   hexPrefixed (js ''0x1A'') \<and>
   unsanitizedNumber (js ''0x1A'') = Some (UnsanitizedNumber (Fin 26))"
proof -
  have a: "spec_leadingDecimal (js ''abc'') = None"
    by (simp add: spec_eval)
  have b: "\<not> hexPrefixed (js '' -12abc'')" "spec_leadingDecimal (js '' -12abc'') = Some (- 12)"
    by (simp_all add: spec_eval)
  have c: "hexPrefixed (js ''0x1A'')" "leadingHex (js ''0x1A'') = Some 26"
    by (simp_all add: spec_eval)
  show ?thesis
    using a b c
      unsanitizedNumber_leading_integer [of "js ''abc''" 0]
      unsanitizedNumber_leading_integer [of "js '' -12abc''" "- 12"]
      unsanitizedNumber_leading_integer [of "js ''0x1A''" 26]
    by simp
qed

section \<open>Properties of the sanitization stage\<close>

lemma sanitizedNumber_Fin:
  "sanitizedNumber (Some (UnsanitizedNumber (Fin q))) =
     (if 0 < q \<and> q \<le> 10 then Some (SanitizedNumber (Fin q)) else None)"
  by (simp add: number_gt_simps number_le_simps)

lemma sanitizedNumber_not_Fin:
  "v = NaN \<or> v = PosInf \<or> v = NegInf \<Longrightarrow> sanitizedNumber (Some (UnsanitizedNumber v)) = None"
  by (auto simp: number_gt_simps number_le_simps)

text \<open>
  Claim C5. The sanitization stage applied to the absent signal returns the absent
  signal: the first branch of the function returns before any comparison is made.
\<close>

theorem sanitizedNumber_absent: "sanitizedNumber None = None"
  by simp

text \<open>
  Claim C4. An integer \<open>n\<close> with \<open>1 \<le> n \<le> 10\<close> is accepted and comes back wrapped
  unchanged; an integer below 1 or above 10 is rejected. Both ends of the range are
  accepted, 0 and 11 are not.
\<close>

theorem sanitizedNumber_integer_range:
  "(1 \<le> n \<and> n \<le> 10 \<longrightarrow>
      sanitizedNumber (Some (UnsanitizedNumber (Fin (of_int n)))) =
        Some (SanitizedNumber (Fin (of_int n)))) \<and>
   (n < 1 \<or> 10 < n \<longrightarrow>
      sanitizedNumber (Some (UnsanitizedNumber (Fin (of_int n)))) = None)"
proof -
  have "(0 < (of_int n :: rat)) = (1 \<le> n)"
    by (simp add: int_one_le_iff_zero_less)
  moreover have "((of_int n :: rat) \<le> 10) = (n \<le> 10)"
    using of_int_le_iff [of n 10, where ?'a = rat] by simp
  ultimately show ?thesis
    by (auto simp: number_gt_simps number_le_simps)
qed

theorem sanitizedNumber_integer_range_witness:
  "sanitizedNumber (Some (UnsanitizedNumber (Fin 1))) = Some (SanitizedNumber (Fin 1)) \<and>
   sanitizedNumber (Some (UnsanitizedNumber (Fin 10))) = Some (SanitizedNumber (Fin 10)) \<and>
   sanitizedNumber (Some (UnsanitizedNumber (Fin 0))) = None \<and>
   sanitizedNumber (Some (UnsanitizedNumber (Fin 11))) = None"
  using sanitizedNumber_integer_range [of 1] sanitizedNumber_integer_range [of 10]
    sanitizedNumber_integer_range [of 0] sanitizedNumber_integer_range [of 11]
  by simp

text \<open>
  Claim C3, as stated: every value that is not an integer is rejected by the
  sanitization stage. The function compares the value with 0 and with 10 and tests
  nothing else, so the value 1.5 is accepted.
\<close>

theorem sanitizedNumber_non_integer_counterexample:
  "\<not> is_integer (Fin (3 / 2)) \<and>
   sanitizedNumber (Some (UnsanitizedNumber (Fin (3 / 2)))) = Some (SanitizedNumber (Fin (3 / 2)))"
proof -
  have "\<lfloor>3 / 2 :: rat\<rfloor> = 1"
    using floor_divide_of_int_eq [of 3 2, where ?'a = rat] by simp
  then show ?thesis
    by (simp add: is_integer_def number_gt_simps number_le_simps)
qed

text \<open>
  Claim C3, amended. The sanitization stage rejects NaN, both infinities and every
  finite value outside \<open>0 < v \<le> 10\<close>, integer or not; a value with \<open>0 < v \<le> 10\<close>
  is accepted and wrapped unchanged, integer or not.
\<close>

theorem sanitizedNumber_range_only:
  "sanitizedNumber (Some (UnsanitizedNumber v)) =
     (case v of
        Fin q \<Rightarrow> if 0 < q \<and> q \<le> 10 then Some (SanitizedNumber v) else None
      | _ \<Rightarrow> None)"
  by (cases v) (simp_all add: number_gt_simps number_le_simps)

theorem sanitizedNumber_range_only_witness:
  "sanitizedNumber (Some (UnsanitizedNumber NaN)) = None \<and>
   sanitizedNumber (Some (UnsanitizedNumber (Fin (21 / 2)))) = None \<and>
   sanitizedNumber (Some (UnsanitizedNumber (Fin (- 1 / 2)))) = None \<and>
   sanitizedNumber (Some (UnsanitizedNumber (Fin (5 / 2)))) = Some (SanitizedNumber (Fin (5 / 2)))"
  using sanitizedNumber_range_only [of NaN] sanitizedNumber_range_only [of "Fin (21 / 2)"]
    sanitizedNumber_range_only [of "Fin (- 1 / 2)"] sanitizedNumber_range_only [of "Fin (5 / 2)"]
  by simp

section \<open>The two stages together\<close>

text \<open>
  Claim C8. For every integer \<open>n\<close> in the range where the host's numbers are exact
  integers (\<open>\<bar>n\<bar> \<le> 2 ^ 53 - 1\<close>), the decimal rendering of \<open>n\<close> is parsed to an
  \<^verbatim>\<open>UnsanitizedNumber\<close> that wraps exactly \<open>n\<close>, negative and out-of-range values
  included.
\<close>

theorem unsanitizedNumber_of_rendering:
  "\<bar>n\<bar> \<le> 2 ^ 53 - 1 \<Longrightarrow>
     Number_toString (Fin (of_int n)) = Some (intToString n) \<and>
     unsanitizedNumber (intToString n) = Some (UnsanitizedNumber (Fin (of_int n)))"
  using Number_toString_int [of n] unsanitizedNumber_intToString [of n] by simp

theorem unsanitizedNumber_of_rendering_witness:
  "\<bar>- 42 :: int\<bar> \<le> 2 ^ 53 - 1 \<and>
   Number_toString (Fin (- 42)) = Some (js ''-42'') \<and>
   unsanitizedNumber (js ''-42'') = Some (UnsanitizedNumber (Fin (- 42)))"
proof -
  have "intToString (- 42) = js ''-42''"
    by (simp add: render_eval)
  then show ?thesis
    using unsanitizedNumber_of_rendering [of "- 42"] by simp
qed

text \<open>
  Claim C9. Whenever the two stages produce a \<^verbatim>\<open>SanitizedNumber\<close> from some text,
  the wrapped value has a decimal rendering, and the two stages applied to that
  rendering produce an equal \<^verbatim>\<open>SanitizedNumber\<close>.
\<close>

theorem sanitized_round_trip:
  "sanitizedNumber (unsanitizedNumber t) = Some s \<Longrightarrow>
     \<exists>r. Number_toString (sanitized_value s) = Some r \<and>
         sanitizedNumber (unsanitizedNumber r) = Some s"
proof -
  assume a: "sanitizedNumber (unsanitizedNumber t) = Some s"
  then obtain n where n: "1 \<le> n" "n \<le> 10" "s = SanitizedNumber (Fin (of_int n))"
    using pipeline_result by blast
  then have small: "\<bar>n\<bar> < 2 ^ 53" by simp
  have "(0 < (of_int n :: rat)) = (1 \<le> n)"
    by (simp add: int_one_le_iff_zero_less)
  moreover have "((of_int n :: rat) \<le> 10) = (n \<le> 10)"
    using of_int_le_iff [of n 10, where ?'a = rat] by simp
  ultimately have "sanitizedNumber (unsanitizedNumber (intToString n)) = Some s"
    using n by (simp add: unsanitizedNumber_intToString [OF small] number_gt_simps number_le_simps)
  with Number_toString_int [OF small] n show ?thesis by simp
qed

theorem sanitized_round_trip_witness:
  "sanitizedNumber (unsanitizedNumber (js '' +7 apples'')) = Some (SanitizedNumber (Fin 7)) \<and>
   (\<exists>r. Number_toString (Fin 7) = Some r \<and>
        sanitizedNumber (unsanitizedNumber r) = Some (SanitizedNumber (Fin 7)))"
proof -
  have "sanitizedNumber (unsanitizedNumber (js '' +7 apples'')) = Some (SanitizedNumber (Fin 7))"
    by (simp add: parse_eval)
  then show ?thesis
    using sanitized_round_trip [of "js '' +7 apples''" "SanitizedNumber (Fin 7)"] by simp
qed


section \<open>Properties of the interaction loop\<close>

lemma do_while_Invalid_step:
  "do_while Invalid evs (Inr input # rest) =
     (case sanitizedNumber (unsanitizedNumber input) of
        None \<Rightarrow>
          do_while Invalid
            (evs @ [ReadFile (Inr input),
                    ConsoleError [Str input, Str (js '' is not what I asked for.'')]]) rest
      | Some n \<Rightarrow>
          \<lparr>finalNumber = Sanitized n,
           events = evs @ [ReadFile (Inr input),
                           ConsoleLog [Str (js ''You did what I wanted and gave me ''),
                                       Num (sanitized_value n), Str (js ''!'')]],
           promise = Fulfilled\<rparr>)"
  by (simp add: Let_def showError_def split: option.split)

lemma do_while_Invalid_result:
  "(promise (do_while Invalid evs ch) \<noteq> Fulfilled \<longrightarrow>
      finalNumber (do_while Invalid evs ch) = Invalid) \<and>
   (promise (do_while Invalid evs ch) = Fulfilled \<longrightarrow>
      (\<exists>n. 1 \<le> n \<and> n \<le> 10 \<and>
           finalNumber (do_while Invalid evs ch) = Sanitized (SanitizedNumber (Fin (of_int n))) \<and>
           last (events (do_while Invalid evs ch)) =
             ConsoleLog [Str (js ''You did what I wanted and gave me ''),
                         Num (Fin (of_int n)), Str (js ''!'')]))"
proof (induction ch arbitrary: evs)
  case Nil
  show ?case by simp
next
  case (Cons r ch)
  show ?case
  proof (cases r)
    case (Inl err)
    then show ?thesis by simp
  next
    case (Inr input)
    show ?thesis
    proof (cases "sanitizedNumber (unsanitizedNumber input)")
      case None
      with Inr Cons.IH show ?thesis
        by (simp only: do_while_Invalid_step option.case)
    next
      case (Some s)
      then obtain n where "1 \<le> n" "n \<le> 10" "s = SanitizedNumber (Fin (of_int n))"
        using pipeline_result by blast
      with Inr Some show ?thesis
        by (simp add: do_while_Invalid_step del: do_while.simps)
    qed
  qed
qed





lemmas loop_eval = asyncFunction_def showError_def Let_def parse_eval

subsection \<open>The function on its own\<close>

text \<open>
  Were the \<^verbatim>\<open>async\<close> function to run with three reads that deliver \<^verbatim>\<open>"0"\<close>, then
  \<^verbatim>\<open>"11"\<close>, then \<^verbatim>\<open>"7"\<close>, it would read once in each of three iterations, write two
  diagnostics and end with the success message for 7.
\<close>

lemma asyncFunction_three_reads:
  "asyncFunction [Inr (js ''0''), Inr (js ''11''), Inr (js ''7'')] =
     \<lparr>finalNumber = Sanitized (SanitizedNumber (Fin 7)),
      events =
        [ConsoleLog [Str (js ''Give me a number between 1 and 10:'')],
         ReadFile (Inr (js ''0'')),
         ConsoleError [Str (js ''0''), Str (js '' is not what I asked for.'')],
         ReadFile (Inr (js ''11'')),
         ConsoleError [Str (js ''11''), Str (js '' is not what I asked for.'')],
         ReadFile (Inr (js ''7'')),
         ConsoleLog [Str (js ''You did what I wanted and gave me ''), Num (Fin 7), Str (js ''!'')]],
      promise = Fulfilled\<rparr>"
  by (simp add: loop_eval)

lemma success_message_7:
  "render [Str (js ''You did what I wanted and gave me ''), Num (Fin 7), Str (js ''!'')] =
     Some (js ''You did what I wanted and gave me 7!'')"
  by (simp add: render_eval)

text \<open>
  One read that delivers the three lines together is one rejected attempt: the
  leading 0 is parsed and the diagnostic echoes all of the text.
\<close>

lemma asyncFunction_one_read:
  "asyncFunction [Inr (js ''0\<newline>11\<newline>7\<newline>'')] =
     \<lparr>finalNumber = Invalid,
      events =
        [ConsoleLog [Str (js ''Give me a number between 1 and 10:'')],
         ReadFile (Inr (js ''0\<newline>11\<newline>7\<newline>'')),
         ConsoleError [Str (js ''0\<newline>11\<newline>7\<newline>''), Str (js '' is not what I asked for.'')]],
      promise = Pending\<rparr>"
  by (simp add: loop_eval)

subsection \<open>The program as the module is written\<close>

lemma exec_module_body: "exec module_env module_body = Some (ReferenceError ''testUnsanitized'')"
  by (simp add: module_env_def module_body_def)

lemma program_uncaught:
  "program channel =
     \<lparr>asyncRun =
        \<lparr>finalNumber = Invalid,
         events = [ConsoleLog [Str (js ''Give me a number between 1 and 10:'')]],
         promise = Pending\<rparr>,
      uncaught = Some (ReferenceError ''testUnsanitized'')\<rparr>"
  by (simp add: program_def exec_module_body asyncFunction_def)

text \<open>
  Claim C1. The claim is that on the input lines \<^verbatim>\<open>"0"\<close>, \<^verbatim>\<open>"11"\<close>, \<^verbatim>\<open>"7"\<close> the loop
  acquires one line in each iteration, writes two diagnostics and ends with the
  success message for 7. The program as the module is written does none of this on
  that input. With the \<^verbatim>\<open>async\<close> function suspended at its first \<^verbatim>\<open>await\<close>, the module
  calls \<^verbatim>\<open>testUnsanitized\<close>, which is declared and never defined; the
  \<^verbatim>\<open>ReferenceError\<close> ends the process. The prompt is the only output, no read has
  settled, and \<^verbatim>\<open>finalNumber\<close> is still the initial \<^verbatim>\<open>InvalidNumber\<close>.
\<close>

theorem scenario_B_uncaught_ReferenceError:
  "program [Inr (js ''0''), Inr (js ''11''), Inr (js ''7'')] =
     \<lparr>asyncRun =
        \<lparr>finalNumber = Invalid,
         events = [ConsoleLog [Str (js ''Give me a number between 1 and 10:'')]],
         promise = Pending\<rparr>,
      uncaught = Some (ReferenceError ''testUnsanitized'')\<rparr> \<and>
   reads (events (asyncRun (program [Inr (js ''0''), Inr (js ''11''), Inr (js ''7'')]))) = [] \<and>
   stderr_lines (events (asyncRun (program [Inr (js ''0''), Inr (js ''11''), Inr (js ''7'')]))) = []"
  by (simp add: program_def exec_module_body asyncFunction_def)

subsection \<open>The loop\<close>









text \<open>
  Claim C10. Whatever the reads deliver, and so after every iteration of the loop,
  \<^verbatim>\<open>finalNumber\<close> is the initial \<^verbatim>\<open>InvalidNumber\<close> or a \<^verbatim>\<open>SanitizedNumber\<close> that wraps an
  integer from 1 to 10, never an \<^verbatim>\<open>UnsanitizedNumber\<close>; the function has returned
  exactly when the tag is \<^verbatim>\<open>'sanitized-number'\<close>, and its last output is then the
  success message with that value. The loop assigns a whole record to
  \<^verbatim>\<open>finalNumber\<close> and never writes a field; in the model a record is a value and
  cannot change in place. The program as the module is written stops before the
  first read settles (\<open>program_uncaught\<close>), with \<^verbatim>\<open>finalNumber\<close> the initial
  \<^verbatim>\<open>InvalidNumber\<close>.
\<close>

theorem finalNumber_invariant:
  "(finalNumber (asyncFunction ch) = Invalid \<or>
      (\<exists>n. 1 \<le> n \<and> n \<le> 10 \<and>
           finalNumber (asyncFunction ch) = Sanitized (SanitizedNumber (Fin (of_int n))))) \<and>
   (\<forall>u. finalNumber (asyncFunction ch) \<noteq> Unsanitized u) \<and>
   (promise (asyncFunction ch) = Fulfilled \<longleftrightarrow> kind (finalNumber (asyncFunction ch)) = ''sanitized-number'') \<and>
   (promise (asyncFunction ch) = Fulfilled \<longrightarrow>
      (\<exists>n. 1 \<le> n \<and> n \<le> 10 \<and>
           finalNumber (asyncFunction ch) = Sanitized (SanitizedNumber (Fin (of_int n))) \<and>
           last (events (asyncFunction ch)) =
             ConsoleLog [Str (js ''You did what I wanted and gave me ''),
                         Num (Fin (of_int n)), Str (js ''!'')]))"
proof -
  let ?r = "do_while Invalid [ConsoleLog [Str (js ''Give me a number between 1 and 10:'')]] ch"
  note inv = do_while_Invalid_result [of "[ConsoleLog [Str (js ''Give me a number between 1 and 10:'')]]" ch]
  show ?thesis
  proof (cases "promise ?r = Fulfilled")
    case True
    with inv show ?thesis unfolding asyncFunction_def by auto
  next
    case False
    with inv show ?thesis unfolding asyncFunction_def by auto
  qed
qed

theorem finalNumber_invariant_witness:
  "promise (asyncFunction [Inr (js ''abc''), Inr (js ''3'')]) = Fulfilled \<and>
   kind (finalNumber (asyncFunction [Inr (js ''abc''), Inr (js ''3'')])) = ''sanitized-number'' \<and>
   (\<exists>n. 1 \<le> n \<and> n \<le> 10 \<and>
        finalNumber (asyncFunction [Inr (js ''abc''), Inr (js ''3'')]) =
          Sanitized (SanitizedNumber (Fin (of_int n))) \<and>
        last (events (asyncFunction [Inr (js ''abc''), Inr (js ''3'')])) =
          ConsoleLog [Str (js ''You did what I wanted and gave me ''),
                      Num (Fin (of_int n)), Str (js ''!'')])"
proof -
  have "promise (asyncFunction [Inr (js ''abc''), Inr (js ''3'')]) = Fulfilled"
    by (simp add: loop_eval)
  then show ?thesis
    using finalNumber_invariant [of "[Inr (js ''abc''), Inr (js ''3'')]"] by blast
qed

end
